theory Spec2Isabelle
  imports Main
begin

section \<open>The transcript logger of cuga-demo-app (src/utils/output_logger.py)\<close>

text \<open>
  The class \<open>OutputLogger\<close> writes a markdown transcript: the constructor creates the
  output directory and a timestamped file holding a header, every \<open>log_*\<close> method opens
  the file in append mode and writes its text, \<open>finalize\<close> appends a footer.

  The embedding follows the Python source method by method. What Python leaves to its
  runtime is made explicit:
  \<^item> a \<open>str\<close> is the list of its Unicode code points;
  \<^item> \<open>datetime.now()\<close> is an argument of the methods that read the clock;
  \<^item> the file system is a value (the directories and the regular files with their text)
    that every method takes and returns;
  \<^item> an exception is a value of type \<open>error\<close>, returned next to the file system as it
    is when the exception leaves the method.

  The standard library is modelled as far as the logger calls it: \<open>pathlib\<close> and the
  file system for the paths the logger makes, \<open>strftime\<close>, \<open>str\<close>, \<open>json.dumps\<close>, and
  \<open>json.loads\<close> for the round trip of a data block. Outside the model are the limits
  of the machine (a full disk, revoked permissions, the recursion limit, the limit on the
  digits of an integer), objects whose \<open>__str__\<close> raises, and strings that UTF-8 cannot
  encode.
\<close>

subsection \<open>Strings\<close>

type_synonym pystr = "nat list"

text \<open>The code points of an ASCII literal.\<close>

definition py :: "string \<Rightarrow> pystr" where
  "py s = map of_char s"

text \<open>\<open>sep.join(xs)\<close>\<close>

fun join :: "pystr \<Rightarrow> pystr list \<Rightarrow> pystr" where
  "join sep [] = []"
| "join sep [x] = x"
| "join sep (x # y # ys) = x @ sep @ join sep (y # ys)"

text \<open>Decimal digits of a natural number and of an integer (\<open>int.__repr__\<close>).\<close>

fun str_nat :: "nat \<Rightarrow> pystr" where
  "str_nat n = (if n < 10 then [48 + n] else str_nat (n div 10) @ [48 + n mod 10])"

declare str_nat.simps [simp del]

definition str_int :: "int \<Rightarrow> pystr" where
  "str_int i = (if i < 0 then 45 # str_nat (nat (- i)) else str_nat (nat i))"

text \<open>Zero padding on the left to a minimal width, as \<open>%02d\<close> does.\<close>

definition zfill :: "nat \<Rightarrow> pystr \<Rightarrow> pystr" where
  "zfill w s = replicate (w - length s) 48 @ s"


subsection \<open>The clock\<close>

text \<open>
  A \<open>datetime\<close> value (the microseconds are never printed by this program) and
  \<open>strftime\<close> for the directives the source uses. \<open>%Y\<close> prints the year on four
  digits, the other directives print two digits.
\<close>

record datetime =
  year :: nat
  month :: nat
  day :: nat
  hour :: nat
  minute :: nat
  second :: nat


definition directive :: "datetime \<Rightarrow> char \<Rightarrow> pystr" where
  "directive d c =
     (if c = CHR ''Y'' then zfill 4 (str_nat (year d))
      else if c = CHR ''m'' then zfill 2 (str_nat (month d))
      else if c = CHR ''d'' then zfill 2 (str_nat (day d))
      else if c = CHR ''H'' then zfill 2 (str_nat (hour d))
      else if c = CHR ''M'' then zfill 2 (str_nat (minute d))
      else if c = CHR ''S'' then zfill 2 (str_nat (second d))
      else [37, of_char c])"

fun strftime :: "datetime \<Rightarrow> string \<Rightarrow> pystr" where
  "strftime d [] = []"
| "strftime d [c] = [of_char c]"
| "strftime d (c # e # cs) =
     (if c = CHR ''%'' then directive d e @ strftime d cs
      else of_char c # strftime d (e # cs))"

subsection \<open>Paths and the file system\<close>

text \<open>
  A \<open>pathlib.Path\<close> is its list of components and whether it is absolute.
  \<open>Path(s)\<close> splits \<open>s\<close> at the slashes and drops the empty components and the
  components \<open>.\<close>; \<open>p / s\<close> appends the components of \<open>s\<close>, unless \<open>s\<close> is
  absolute, which replaces \<open>p\<close>. A component \<open>..\<close> is kept as it is, and two paths
  are the same file when they have the same components.
\<close>

datatype path = Path (absolute: bool) (parts: "pystr list")

fun split_on :: "nat \<Rightarrow> pystr \<Rightarrow> pystr list" where
  "split_on c [] = [[]]"
| "split_on c (x # xs) =
     (if x = c then [] # split_on c xs
      else (case split_on c xs of
              [] \<Rightarrow> [[x]]
            | w # ws \<Rightarrow> (x # w) # ws))"

definition mk_path :: "pystr \<Rightarrow> path" where
  "mk_path s =
     Path (case s of [] \<Rightarrow> False | c # _ \<Rightarrow> c = 47)
          (filter (\<lambda>w. w \<noteq> [] \<and> w \<noteq> py ''.'') (split_on 47 s))"

definition truediv :: "path \<Rightarrow> pystr \<Rightarrow> path" where
  "truediv p s =
     (let q = mk_path s
      in if absolute q then q else Path (absolute p) (parts p @ parts q))"

definition parent :: "path \<Rightarrow> path" where
  "parent p = Path (absolute p) (butlast (parts p))"

text \<open>The last component, \<open>p.name\<close>.\<close>

definition name :: "path \<Rightarrow> pystr" where
  "name p = (if parts p = [] then [] else last (parts p))"

text \<open>
  The file system: the set of directories and the text of each regular file.
  The exceptions of the model are the \<open>OSError\<close>s that the paths themselves can cause
  and the two exceptions of \<open>json.dumps\<close>.
\<close>

record filesystem =
  dirs :: "path set"
  files :: "path \<rightharpoonup> pystr"

datatype error =
    FileNotFoundError
  | FileExistsError
  | NotADirectoryError
  | IsADirectoryError
  | TypeError
  | ValueError


text \<open>\<open>os.mkdir(p)\<close>\<close>

definition os_mkdir :: "path \<Rightarrow> filesystem \<Rightarrow> error + filesystem" where
  "os_mkdir p fs =
     (if p \<in> dirs fs \<or> p \<in> dom (files fs) then Inl FileExistsError
      else if parent p \<in> dom (files fs) then Inl NotADirectoryError
      else if parent p \<notin> dirs fs then Inl FileNotFoundError
      else Inr (fs\<lparr>dirs := insert p (dirs fs)\<rparr>))"

text \<open>
  \<open>Path.mkdir(exist_ok=True)\<close>, with \<open>parents\<close> left at \<open>False\<close>: a missing parent is
  raised as it is, any other \<open>OSError\<close> is dropped when the path is a directory.
\<close>

definition mkdir_exist_ok :: "path \<Rightarrow> filesystem \<Rightarrow> error + filesystem" where
  "mkdir_exist_ok p fs =
     (case os_mkdir p fs of
        Inr fs' \<Rightarrow> Inr fs'
      | Inl e \<Rightarrow>
          if e = FileNotFoundError then Inl e
          else if p \<in> dirs fs then Inr fs
          else Inl e)"

text \<open>Whether \<open>open(p, 'w')\<close> or \<open>open(p, 'a')\<close> raises.\<close>

definition open_error :: "path \<Rightarrow> filesystem \<Rightarrow> error option" where
  "open_error p fs =
     (if p \<in> dirs fs then Some IsADirectoryError
      else if parent p \<in> dom (files fs) then Some NotADirectoryError
      else if parent p \<notin> dirs fs then Some FileNotFoundError
      else None)"

text \<open>
  A \<open>with open(p, mode) as f:\<close> block. The body is given by the text its \<open>f.write\<close>
  calls have written when it ends and by the exception that ended it, if any: leaving the
  block closes the file, which stores what was written, also when an exception leaves it.
  Mode \<open>'w'\<close> truncates the file, mode \<open>'a'\<close> keeps its text and creates it when absent.
\<close>

datatype mode = W | A

definition with_open ::
  "path \<Rightarrow> mode \<Rightarrow> pystr \<times> error option \<Rightarrow> filesystem \<Rightarrow> filesystem \<times> error option" where
  "with_open p m body fs =
     (case open_error p fs of
        Some e \<Rightarrow> (fs, Some e)
      | None \<Rightarrow>
          (let old = (case m of W \<Rightarrow> [] | A \<Rightarrow> (case files fs p of None \<Rightarrow> [] | Some t \<Rightarrow> t))
           in (fs\<lparr>files := (files fs)(p \<mapsto> old @ fst body)\<rparr>, snd body)))"

subsection \<open>Python values\<close>

text \<open>
  The values the logger can be given. A float is kept as its \<open>repr\<close> (Python prints a
  float nowhere else than through it); \<open>PObj s\<close> is any object of another type (a
  datetime, a path, a set, ...), given by the string \<open>s\<close> that \<open>str\<close> returns for it;
  \<open>PCyc\<close> stands, inside a list or a dict, for a reference back to a container that
  encloses it, which is how a self-referential structure appears to a traversal. A dict is
  the list of its items in insertion order.
\<close>

datatype pyval =
    PNone
  | PBool bool
  | PInt int
  | PFloat pystr
  | PStr pystr
  | PList "pyval list"
  | PTuple "pyval list"
  | PDict "(pyval \<times> pyval) list"
  | PObj pystr
  | PCyc

definition hex_digit :: "nat \<Rightarrow> nat" where
  "hex_digit n = (if n < 10 then 48 + n else 87 + n)"

definition hex2 :: "nat \<Rightarrow> pystr" where
  "hex2 n = [hex_digit (n div 16 mod 16), hex_digit (n mod 16)]"

definition hex4 :: "nat \<Rightarrow> pystr" where
  "hex4 n = hex2 (n div 256) @ hex2 n"

text \<open>
  \<open>str\<close> and \<open>repr\<close>, which an f-string and \<open>str(cell)\<close> call. The \<open>repr\<close> of a string
  is the one of CPython for ASCII text; a code point above U+007F is printed as it is
  (CPython escapes those it does not hold for printable). An object of another type is
  printed inside a container by its \<open>str\<close>, a back reference as \<open>[...]\<close>.
\<close>

definition repr_char :: "nat \<Rightarrow> nat \<Rightarrow> pystr" where
  "repr_char q c =
     (if c = q \<or> c = 92 then [92, c]
      else if c = 9 then 92 # py ''t''
      else if c = 10 then 92 # py ''n''
      else if c = 13 then 92 # py ''r''
      else if c < 32 \<or> c = 127 then 92 # py ''x'' @ hex2 c
      else [c])"

definition repr_str :: "pystr \<Rightarrow> pystr" where
  "repr_str s =
     (let q = (if 39 \<in> set s \<and> 34 \<notin> set s then 34 else 39)
      in q # concat (map (repr_char q) s) @ [q])"

fun py_repr :: "pyval \<Rightarrow> pystr" where
  "py_repr PNone = py ''None''"
| "py_repr (PBool b) = (if b then py ''True'' else py ''False'')"
| "py_repr (PInt i) = str_int i"
| "py_repr (PFloat r) = r"
| "py_repr (PStr s) = repr_str s"
| "py_repr (PList xs) = py ''['' @ join (py '', '') (map py_repr xs) @ py '']''"
| "py_repr (PTuple xs) =
     (case xs of
        [x] \<Rightarrow> py ''('' @ py_repr x @ py '',)''
      | _ \<Rightarrow> py ''('' @ join (py '', '') (map py_repr xs) @ py '')'')"
| "py_repr (PDict kvs) =
     py ''{'' @ join (py '', '') (map (\<lambda>kv. py_repr (fst kv) @ py '': '' @ py_repr (snd kv)) kvs)
       @ py ''}''"
| "py_repr (PObj s) = s"
| "py_repr PCyc = py ''[...]''"

definition py_str :: "pyval \<Rightarrow> pystr" where
  "py_str v = (case v of PStr s \<Rightarrow> s | _ \<Rightarrow> py_repr v)"

text \<open>\<open>d.get(k)\<close> and \<open>k in d\<close> for a string key \<open>k\<close>.\<close>

definition dict_get :: "(pyval \<times> pyval) list \<Rightarrow> pystr \<Rightarrow> pyval option" where
  "dict_get d k = map_of d (PStr k)"

subsection \<open>\<open>json.dumps(data, indent=2, default=str)\<close>\<close>

text \<open>
  The encoder of the standard library, with the options of the call: \<open>ensure_ascii\<close>,
  \<open>allow_nan\<close>, no \<open>skipkeys\<close>, no \<open>sort_keys\<close>, the separators \<open>,\<close> and \<open>: \<close>.
  It raises \<open>ValueError\<close> at a circular reference and \<open>TypeError\<close> at a dict key that
  is not a string, a number, a boolean or \<open>None\<close>: \<open>default\<close> is called for values only.
\<close>

definition escape_ascii :: "nat \<Rightarrow> pystr" where
  "escape_ascii c =
     (if c = 34 then [92, 34]
      else if c = 92 then [92, 92]
      else if c = 10 then 92 # py ''n''
      else if c = 13 then 92 # py ''r''
      else if c = 9 then 92 # py ''t''
      else if c = 12 then 92 # py ''f''
      else if c = 8 then 92 # py ''b''
      else if 32 \<le> c \<and> c \<le> 126 then [c]
      else if c < 65536 then 92 # py ''u'' @ hex4 c
      else (let n = c - 65536
            in 92 # py ''u'' @ hex4 (55296 + n div 1024 mod 1024) @
               92 # py ''u'' @ hex4 (56320 + n mod 1024)))"

definition encode_basestring_ascii :: "pystr \<Rightarrow> pystr" where
  "encode_basestring_ascii s = 34 # concat (map escape_ascii s) @ [34]"

definition floatstr :: "pystr \<Rightarrow> pystr" where
  "floatstr r =
     (if r = py ''nan'' then py ''NaN''
      else if r = py ''inf'' then py ''Infinity''
      else if r = py ''-inf'' then py ''-Infinity''
      else r)"

fun sequence :: "('e + 'a) list \<Rightarrow> 'e + 'a list" where
  "sequence [] = Inr []"
| "sequence (Inl e # rs) = Inl e"
| "sequence (Inr x # rs) = (case sequence rs of Inl e \<Rightarrow> Inl e | Inr xs \<Rightarrow> Inr (x # xs))"

definition newline_indent :: "nat \<Rightarrow> pystr" where
  "newline_indent level = 10 # replicate (2 * level) 32"

text \<open>The text of a key, or the \<open>TypeError\<close>.\<close>

definition encode_key :: "pyval \<Rightarrow> error + pystr" where
  "encode_key k =
     (case k of
        PStr s \<Rightarrow> Inr s
      | PFloat r \<Rightarrow> Inr (floatstr r)
      | PBool b \<Rightarrow> Inr (if b then py ''true'' else py ''false'')
      | PNone \<Rightarrow> Inr (py ''null'')
      | PInt i \<Rightarrow> Inr (str_int i)
      | _ \<Rightarrow> Inl TypeError)"

text \<open>
  A non-empty list or dict at nesting depth \<open>level\<close>, from the encoded elements or
  items: the first exception of the traversal, or the elements one per line.
\<close>

definition encode_block ::
  "nat \<Rightarrow> pystr \<Rightarrow> pystr \<Rightarrow> (error + pystr) list \<Rightarrow> error + pystr" where
  "encode_block level opening closing rs =
     (case sequence rs of
        Inl e \<Rightarrow> Inl e
      | Inr chunks \<Rightarrow>
          Inr (opening @ newline_indent (Suc level) @
               join (py '','' @ newline_indent (Suc level)) chunks @
               newline_indent level @ closing))"

definition encode_item :: "pyval \<Rightarrow> error + pystr \<Rightarrow> error + pystr" where
  "encode_item k r =
     (case encode_key k of
        Inl e \<Rightarrow> Inl e
      | Inr ks \<Rightarrow>
          (case r of
             Inl e \<Rightarrow> Inl e
           | Inr vs \<Rightarrow> Inr (encode_basestring_ascii ks @ py '': '' @ vs)))"

fun iterencode :: "nat \<Rightarrow> pyval \<Rightarrow> error + pystr" where
  "iterencode level (PStr s) = Inr (encode_basestring_ascii s)"
| "iterencode level PNone = Inr (py ''null'')"
| "iterencode level (PBool b) = Inr (if b then py ''true'' else py ''false'')"
| "iterencode level (PInt i) = Inr (str_int i)"
| "iterencode level (PFloat r) = Inr (floatstr r)"
| "iterencode level (PList xs) =
     (if xs = [] then Inr (py ''[]'')
      else encode_block level (py ''['') (py '']'') (map (iterencode (Suc level)) xs))"
| "iterencode level (PTuple xs) =
     (if xs = [] then Inr (py ''[]'')
      else encode_block level (py ''['') (py '']'') (map (iterencode (Suc level)) xs))"
| "iterencode level (PDict kvs) =
     (if kvs = [] then Inr (py ''{}'')
      else encode_block level (py ''{'') (py ''}'')
             (map (\<lambda>kv. encode_item (fst kv) (iterencode (Suc level) (snd kv))) kvs))"
| "iterencode level (PObj s) = Inr (encode_basestring_ascii s)"
| "iterencode level PCyc = Inl ValueError"

definition json_dumps :: "pyval \<Rightarrow> error + pystr" where
  "json_dumps data = iterencode 0 data"




subsection \<open>\<open>json.loads\<close>\<close>























text \<open>What follows a value in the text of the encoder: nothing, a newline or a comma.\<close>

definition delim :: "pystr \<Rightarrow> bool" where
  "delim rest \<longleftrightarrow> (case rest of [] \<Rightarrow> True | c # _ \<Rightarrow> c = 10 \<or> c = 44)"



subsection \<open>The class \<open>OutputLogger\<close>\<close>

text \<open>
  The attributes of the object, and the state a method runs in: the object and the file
  system. A method returns the state it leaves and the exception it raised, if any.
\<close>

record OutputLogger =
  script_name :: pystr
  output_dir :: path
  filename :: pystr
  filepath :: path

record world =
  logger :: OutputLogger
  disk :: filesystem

type_synonym outcome = "world \<times> error option"

text \<open>A body that runs to its end, given by its \<open>f.write\<close> calls.\<close>

definition wrote :: "pystr list \<Rightarrow> pystr \<times> error option" where
  "wrote ws = (concat ws, None)"

text \<open>\<open>with open(self.filepath, mode, encoding='utf-8') as f:\<close>\<close>

definition with_file :: "mode \<Rightarrow> pystr \<times> error option \<Rightarrow> world \<Rightarrow> outcome" where
  "with_file m body w =
     (case with_open (filepath (logger w)) m body (disk w) of
        (fs', r) \<Rightarrow> (w\<lparr>disk := fs'\<rparr>, r))"

text \<open>The next statement runs only when the one before it has raised nothing.\<close>

definition and_then :: "outcome \<Rightarrow> (world \<Rightarrow> outcome) \<Rightarrow> outcome" where
  "and_then r f = (case snd r of None \<Rightarrow> f (fst r) | Some e \<Rightarrow> r)"

definition skip :: "world \<Rightarrow> outcome" where
  "skip w = (w, None)"

definition initialize_file :: "datetime \<Rightarrow> world \<Rightarrow> outcome" where
  "initialize_file now w =
     with_file W
       (wrote [py ''# '' @ script_name (logger w) @ py '' - Execution Log\<newline>\<newline>'',
               py ''**Timestamp:** '' @ strftime now ''%Y-%m-%d %H:%M:%S'' @ py ''\<newline>\<newline>'',
               py ''---\<newline>\<newline>'']) w"

text \<open>
  The constructor. \<open>now1\<close> is the clock when the file name is made, \<open>now2\<close> when the
  header is written. When it raises, no object exists: the result is the exception and
  the file system as it is then (the directory may have been made).
\<close>

definition init ::
  "pystr \<Rightarrow> pystr \<Rightarrow> datetime \<Rightarrow> datetime \<Rightarrow> filesystem \<Rightarrow> error \<times> filesystem + world" where
  "init script_name' output_dir' now1 now2 fs =
     (case mkdir_exist_ok (mk_path output_dir') fs of
        Inl e \<Rightarrow> Inl (e, fs)
      | Inr fs1 \<Rightarrow>
          (let timestamp = strftime now1 ''%Y%m%d_%H%M%S'';
               filename' = script_name' @ py ''_'' @ timestamp @ py ''.md'';
               obj = \<lparr>script_name = script_name',
                      output_dir = mk_path output_dir',
                      filename = filename',
                      filepath = truediv (mk_path output_dir') filename'\<rparr>
           in case initialize_file now2 \<lparr>logger = obj, disk = fs1\<rparr> of
                (w, None) \<Rightarrow> Inr w
              | (w, Some e) \<Rightarrow> Inl (e, disk w)))"

definition log_section :: "pystr \<Rightarrow> pystr \<Rightarrow> world \<Rightarrow> outcome" where
  "log_section title content w =
     with_file A
       (wrote ([py ''## '' @ title @ py ''\<newline>\<newline>''] @
               (if content \<noteq> [] then [content @ py ''\<newline>\<newline>''] else []))) w"

definition log_code :: "pystr \<Rightarrow> pystr \<Rightarrow> world \<Rightarrow> outcome" where
  "log_code code language w =
     with_file A
       (wrote [py ''```'' @ language @ py ''\<newline>'' @ code @ py ''\<newline>```\<newline>\<newline>'']) w"

text \<open>
  In \<open>log_data\<close> the opening fence is written before \<open>json.dumps\<close> is called: when
  \<open>json.dumps\<close> raises, the block has written the fence and nothing after it.
\<close>

definition log_data :: "pyval \<Rightarrow> pystr option \<Rightarrow> world \<Rightarrow> outcome" where
  "log_data data title w =
     and_then
       (case title of
          None \<Rightarrow> skip w
        | Some t \<Rightarrow> if t \<noteq> [] then log_section t [] w else skip w)
       (with_file A
          (case json_dumps data of
             Inl e \<Rightarrow> (py ''```json\<newline>'', Some e)
           | Inr text \<Rightarrow> wrote [py ''```json\<newline>'', text, py ''\<newline>```\<newline>\<newline>'']))"

definition log_table :: "pyval list \<Rightarrow> pyval list list \<Rightarrow> world \<Rightarrow> outcome" where
  "log_table headers rows w =
     with_file A
       (wrote ([py ''| '' @ join (py '' | '') (map py_str headers) @ py '' |\<newline>'',
                py ''| '' @ join (py '' | '') (map (\<lambda>_. py ''---'') headers) @ py '' |\<newline>''] @
               map (\<lambda>row. py ''| '' @ join (py '' | '') (map py_str row) @ py '' |\<newline>'') rows @
               [py ''\<newline>''])) w"

definition log_text :: "pystr \<Rightarrow> world \<Rightarrow> outcome" where
  "log_text text w = with_file A (wrote [text @ py ''\<newline>\<newline>'']) w"

definition log_list :: "pyval list \<Rightarrow> bool \<Rightarrow> world \<Rightarrow> outcome" where
  "log_list items ordered w =
     with_file A
       (wrote (map (\<lambda>(i, item).
                      if ordered then str_nat i @ py ''. '' @ py_str item @ py ''\<newline>''
                      else py ''- '' @ py_str item @ py ''\<newline>'')
                   (enumerate 1 items) @
               [py ''\<newline>''])) w"

text \<open>The three markers: U+2705, U+274C, and U+2139 U+FE0F.\<close>

definition status_emoji :: "pyval \<Rightarrow> pystr" where
  "status_emoji status =
     (if status = PStr (py ''success'') then [9989]
      else if status = PStr (py ''error'') then [10060]
      else [8505, 65039])"

definition log_result :: "(pyval \<times> pyval) list \<Rightarrow> world \<Rightarrow> outcome" where
  "log_result result w =
     (let status = (case dict_get result (py ''status'') of
                      None \<Rightarrow> PStr (py ''unknown'')
                    | Some v \<Rightarrow> v)
      in and_then (and_then (and_then (and_then
           (log_section (py ''Execution Result'') [] w)
           (log_text (status_emoji status @ py '' **Status:** '' @ py_str status)))
           (case dict_get result (py ''message'') of
              None \<Rightarrow> skip
            | Some m \<Rightarrow> log_text (py ''**Message:** '' @ py_str m)))
           (case dict_get result (py ''data'') of
              None \<Rightarrow> skip
            | Some d \<Rightarrow> log_data d (Some (py ''Result Data''))))
           (case dict_get result (py ''execution_time'') of
              None \<Rightarrow> skip
            | Some t \<Rightarrow> log_text (py ''**Execution Time:** '' @ py_str t)))"

definition finalize :: "datetime \<Rightarrow> world \<Rightarrow> outcome" where
  "finalize now w =
     with_file A
       (wrote [py ''\<newline>---\<newline>\<newline>'',
               py ''*Log generated at '' @ strftime now ''%Y-%m-%d %H:%M:%S'' @ py ''*\<newline>'']) w"

definition get_filepath :: "world \<Rightarrow> path" where
  "get_filepath w = filepath (logger w)"

definition create_logger ::
  "pystr \<Rightarrow> datetime \<Rightarrow> datetime \<Rightarrow> filesystem \<Rightarrow> error \<times> filesystem + world" where
  "create_logger script_name' = init script_name' (py ''./output'')"

subsection \<open>Transcripts as sequences of calls\<close>

text \<open>
  A caller issues logging calls one after the other on one logger. \<open>perform\<close> is the
  method call itself, \<open>run\<close> issues a sequence of calls whatever each of them raises (a
  caller that stops at an exception has issued a shorter sequence), \<open>perform_all\<close> is
  the sequence of statements of one method body: an exception ends it.
\<close>

datatype call =
    LogSection pystr pystr
  | LogCode pystr pystr
  | LogData pyval "pystr option"
  | LogTable "pyval list" "pyval list list"
  | LogText pystr
  | LogList "pyval list" bool
  | LogResult "(pyval \<times> pyval) list"
  | Finalize datetime

fun perform :: "call \<Rightarrow> world \<Rightarrow> outcome" where
  "perform (LogSection title content) w = log_section title content w"
| "perform (LogCode code language) w = log_code code language w"
| "perform (LogData data title) w = log_data data title w"
| "perform (LogTable headers rows) w = log_table headers rows w"
| "perform (LogText text) w = log_text text w"
| "perform (LogList items ordered) w = log_list items ordered w"
| "perform (LogResult result) w = log_result result w"
| "perform (Finalize now) w = finalize now w"

fun run :: "call list \<Rightarrow> world \<Rightarrow> world" where
  "run [] w = w"
| "run (c # cs) w = run cs (fst (perform c w))"


text \<open>The text of the transcript's file (empty when there is no file).\<close>

definition content :: "world \<Rightarrow> pystr" where
  "content w = (case files (disk w) (get_filepath w) of None \<Rightarrow> [] | Some t \<Rightarrow> t)"

text \<open>The transcript's file can be opened: its directory is there and it is no directory.\<close>

definition writable :: "world \<Rightarrow> bool" where
  "writable w \<longleftrightarrow> open_error (get_filepath w) (disk w) = None"

subsection \<open>The format of the transcript, as the specification gives it\<close>

text \<open>
  The header written at creation, the footer of \<open>finalize\<close>, and the rendering of each
  call: what the call adds to the file. The rendering of a data block whose
  serialisation raises is what is written before the exception.
\<close>

definition header :: "pystr \<Rightarrow> datetime \<Rightarrow> pystr" where
  "header script_name' now =
     py ''# '' @ script_name' @ py '' - Execution Log\<newline>\<newline>**Timestamp:** '' @
     strftime now ''%Y-%m-%d %H:%M:%S'' @ py ''\<newline>\<newline>---\<newline>\<newline>''"

definition footer :: "datetime \<Rightarrow> pystr" where
  "footer now =
     py ''\<newline>---\<newline>\<newline>*Log generated at '' @
     strftime now ''%Y-%m-%d %H:%M:%S'' @ py ''*\<newline>''"

definition section_text :: "pystr \<Rightarrow> pystr \<Rightarrow> pystr" where
  "section_text title body =
     py ''## '' @ title @ py ''\<newline>\<newline>'' @
     (if body = [] then [] else body @ py ''\<newline>\<newline>'')"



definition data_text :: "pyval \<Rightarrow> pystr option \<Rightarrow> pystr" where
  "data_text data title =
     (case title of None \<Rightarrow> [] | Some t \<Rightarrow> if t = [] then [] else section_text t []) @
     py ''```json\<newline>'' @
     (case json_dumps data of
        Inl e \<Rightarrow> []
      | Inr text \<Rightarrow> text @ py ''\<newline>```\<newline>\<newline>'')"








text \<open>The state after \<open>text\<close> has been added at the end of the transcript's file.\<close>

definition append_text :: "pystr \<Rightarrow> world \<Rightarrow> world" where
  "append_text text w =
     w\<lparr>disk := (disk w)\<lparr>files := (files (disk w))(get_filepath w \<mapsto> content w @ text)\<rparr>\<rparr>"


subsection \<open>A concrete run\<close>

text \<open>
  A clock, a file system holding the working directory only, and the state that
  \<open>OutputLogger("demo")\<close> leaves there.
\<close>

definition clock0 :: datetime where
  "clock0 = \<lparr>year = 2024, month = 1, day = 5, hour = 3, minute = 4, second = 9\<rparr>"

definition clock1 :: datetime where
  "clock1 = \<lparr>year = 2024, month = 1, day = 5, hour = 3, minute = 4, second = 10\<rparr>"

definition fs0 :: filesystem where
  "fs0 = \<lparr>dirs = {Path False []}, files = Map.empty\<rparr>"

definition demo_logger :: OutputLogger where
  "demo_logger =
     \<lparr>script_name = py ''demo'',
      output_dir = Path False [py ''output''],
      filename = py ''demo_20240105_030409.md'',
      filepath = Path False [py ''output'', py ''demo_20240105_030409.md'']\<rparr>"

definition demo_header :: pystr where
  "demo_header =
     py ''# demo - Execution Log\<newline>\<newline>**Timestamp:** 2024-01-05 03:04:09\<newline>\<newline>---\<newline>\<newline>''"

definition demo_world :: world where
  "demo_world =
     \<lparr>logger = demo_logger,
      disk = \<lparr>dirs = {Path False [py ''output''], Path False []},
               files = [Path False [py ''output'', py ''demo_20240105_030409.md''] \<mapsto> demo_header]\<rparr>\<rparr>"

text \<open>The dict \<open>{(1, 2): "x"}\<close>, whose key is a tuple.\<close>

definition tuple_keyed :: pyval where
  "tuple_keyed = PDict [(PTuple [PInt 1, PInt 2], PStr (py ''x''))]"



section \<open>Properties\<close>

subsection \<open>Appending to the transcript\<close>

lemma content_append_text [simp]: "content (append_text t w) = content w @ t"
  by (simp add: append_text_def content_def get_filepath_def)

lemma logger_append_text [simp]: "logger (append_text t w) = logger w"
  by (simp add: append_text_def)

lemma get_filepath_append_text [simp]: "get_filepath (append_text t w) = get_filepath w"
  by (simp add: get_filepath_def)

lemma dirs_append_text [simp]: "dirs (disk (append_text t w)) = dirs (disk w)"
  by (simp add: append_text_def)


lemma writable_append_text [simp]: "writable w \<Longrightarrow> writable (append_text t w)"
  by (auto simp: append_text_def writable_def get_filepath_def open_error_def parent_def
           split: if_splits)

lemma append_text_twice [simp]: "append_text t2 (append_text t1 w) = append_text (t1 @ t2) w"
  by (simp add: append_text_def content_def get_filepath_def)

lemma with_file_A:
  "writable w \<Longrightarrow> with_file A body w = (append_text (fst body) w, snd body)"
  by (simp add: with_file_def with_open_def writable_def content_def get_filepath_def
        append_text_def split: option.splits)

lemma with_file_wrote:
  "writable w \<Longrightarrow> with_file A (wrote ts) w = (append_text (concat ts) w, None)"
  by (simp add: with_file_A wrote_def)

lemma log_section_appends:
  "writable w \<Longrightarrow> log_section title body w = (append_text (section_text title body) w, None)"
  by (simp add: log_section_def with_file_wrote section_text_def)



lemma finalize_appends:
  "writable w \<Longrightarrow> finalize now w = (append_text (footer now) w, None)"
  by (simp add: finalize_def with_file_wrote footer_def py_def)



lemma log_data_appends:
  "writable w \<Longrightarrow>
   log_data data title w =
     (append_text (data_text data title) w,
      case json_dumps data of Inl e \<Rightarrow> Some e | Inr t \<Rightarrow> None)"
  by (cases "json_dumps data")
     (auto simp: log_data_def and_then_def skip_def log_section_appends with_file_A wrote_def
        data_text_def split: option.splits)


lemma and_then_None [simp]: "and_then (w, None) f = f w"
  by (simp add: and_then_def)

lemma and_then_Some [simp]: "and_then (w, Some e) f = (w, Some e)"
  by (simp add: and_then_def)





subsection \<open>The constructor\<close>

lemma mkdir_exist_ok_Inr:
  "mkdir_exist_ok d fs = Inr fs1 \<Longrightarrow> dirs fs1 = insert d (dirs fs) \<and> files fs1 = files fs"
  by (auto simp: mkdir_exist_ok_def os_mkdir_def split: if_splits)

lemma initialize_file_None:
  "initialize_file now w = (w', None) \<Longrightarrow>
     open_error (get_filepath w) (disk w) = None \<and>
     w' = w\<lparr>disk := (disk w)\<lparr>files :=
            (files (disk w))(get_filepath w \<mapsto> header (script_name (logger w)) now)\<rparr>\<rparr>"
  by (auto simp: initialize_file_def with_file_def with_open_def wrote_def get_filepath_def
        header_def py_def split: option.splits)

lemma init_Inr:
  assumes "init sn od t1 t2 fs = Inr w"
  shows "logger w =
           \<lparr>script_name = sn, output_dir = mk_path od,
            filename = sn @ py ''_'' @ strftime t1 ''%Y%m%d_%H%M%S'' @ py ''.md'',
            filepath = truediv (mk_path od)
                         (sn @ py ''_'' @ strftime t1 ''%Y%m%d_%H%M%S'' @ py ''.md'')\<rparr>"
    and "writable w"
    and "files (disk w) (get_filepath w) = Some (header sn t2)"
    and "dirs (disk w) = insert (mk_path od) (dirs fs)"
proof -
  define obj where "obj =
     \<lparr>script_name = sn, output_dir = mk_path od,
      filename = sn @ py ''_'' @ strftime t1 ''%Y%m%d_%H%M%S'' @ py ''.md'',
      filepath = truediv (mk_path od)
                   (sn @ py ''_'' @ strftime t1 ''%Y%m%d_%H%M%S'' @ py ''.md'')\<rparr>"
  from assms obtain fs1 where m: "mkdir_exist_ok (mk_path od) fs = Inr fs1"
    by (auto simp: init_def split: sum.splits)
  with assms have i: "initialize_file t2 \<lparr>logger = obj, disk = fs1\<rparr> = (w, None)"
    by (auto simp: init_def Let_def obj_def simp del: strftime.simps
          split: prod.splits option.splits)
  from initialize_file_None [OF i]
  have o: "open_error (filepath obj) fs1 = None"
    and w: "w = \<lparr>logger = obj,
                 disk = fs1\<lparr>files := (files fs1)(filepath obj \<mapsto> header sn t2)\<rparr>\<rparr>"
    by (simp_all add: get_filepath_def obj_def)
  show "logger w = obj" by (simp add: w)
  show "writable w"
    using o
    by (auto simp: w writable_def get_filepath_def open_error_def parent_def split: if_splits)
  show "files (disk w) (get_filepath w) = Some (header sn t2)"
    by (simp add: w get_filepath_def)
  show "dirs (disk w) = insert (mk_path od) (dirs fs)"
    using mkdir_exist_ok_Inr [OF m] by (simp add: w)
qed

subsection \<open>The concrete run\<close>


lemma strftime_clock0:
  "strftime clock0 ''%Y%m%d_%H%M%S'' = py ''20240105_030409''"
  "strftime clock0 ''%Y-%m-%d %H:%M:%S'' = py ''2024-01-05 03:04:09''"
  "strftime clock1 ''%Y-%m-%d %H:%M:%S'' = py ''2024-01-05 03:04:10''"
  by code_simp+

lemma mk_path_output: "mk_path (py ''./output'') = Path False [py ''output'']"
  by code_simp

lemma demo_filepath:
  "truediv (Path False [py ''output'']) (py ''demo_20240105_030409.md'')
     = Path False [py ''output'', py ''demo_20240105_030409.md'']"
  by code_simp

lemma init_demo: "init (py ''demo'') (py ''./output'') clock0 clock0 fs0 = Inr demo_world"
proof -
  have name: "py ''demo'' @ py ''_'' @ py ''20240105_030409'' @ py ''.md''
                = py ''demo_20240105_030409.md''"
    by (simp add: py_def)
  have hd: "py ''# '' @ py ''demo'' @ py '' - Execution Log\<newline>\<newline>'' @
            py ''**Timestamp:** '' @ py ''2024-01-05 03:04:09'' @ py ''\<newline>\<newline>'' @
            py ''---\<newline>\<newline>'' = demo_header"
    by (simp add: py_def demo_header_def)
  have m: "mkdir_exist_ok (Path False [py ''output'']) fs0
             = Inr \<lparr>dirs = {Path False [py ''output''], Path False []}, files = Map.empty\<rparr>"
    by (simp add: mkdir_exist_ok_def os_mkdir_def fs0_def parent_def)
  have o: "open_error (Path False [py ''output'', py ''demo_20240105_030409.md''])
             \<lparr>dirs = {Path False [py ''output''], Path False []}, files = Map.empty\<rparr> = None"
    by (simp add: open_error_def parent_def)
  show ?thesis
    unfolding init_def mk_path_output strftime_clock0 name Let_def m
    by (simp add: initialize_file_def with_file_def with_open_def wrote_def demo_filepath o hd
          demo_world_def demo_logger_def del: strftime.simps add: strftime_clock0)
qed

lemma writable_demo: "writable demo_world"
  using init_Inr(2) [OF init_demo] .

lemma content_demo: "content demo_world = demo_header"
  by (simp add: content_def get_filepath_def demo_world_def demo_logger_def)

lemma file_demo: "files (disk demo_world) (get_filepath demo_world) = Some demo_header"
  by (simp add: get_filepath_def demo_world_def demo_logger_def)

subsection \<open>Lists\<close>



subsection \<open>The footer\<close>

text \<open>
  C7: two calls of \<open>finalize\<close> on a transcript whose file can be opened raise nothing and
  add two footers, each the separator and the line \<open>*Log generated at <timestamp>*\<close>;
  the text after the second call is the text after the first, first footer included,
  followed by the second footer.
\<close>

theorem finalize_twice:
  assumes "writable w"
  shows "snd (finalize t1 w) = None \<and>
         snd (finalize t2 (fst (finalize t1 w))) = None \<and>
         content (fst (finalize t1 w)) =
           content w @ py ''\<newline>---\<newline>\<newline>*Log generated at '' @
           strftime t1 ''%Y-%m-%d %H:%M:%S'' @ py ''*\<newline>'' \<and>
         content (fst (finalize t2 (fst (finalize t1 w)))) =
           content (fst (finalize t1 w)) @ py ''\<newline>---\<newline>\<newline>*Log generated at '' @
           strftime t2 ''%Y-%m-%d %H:%M:%S'' @ py ''*\<newline>''"
  using assms by (simp add: finalize_appends footer_def del: strftime.simps)

theorem finalize_twice_witness:
  "writable demo_world \<and>
   content (fst (finalize clock1 (fst (finalize clock0 demo_world)))) =
     demo_header @
     py ''\<newline>---\<newline>\<newline>*Log generated at 2024-01-05 03:04:09*\<newline>'' @
     py ''\<newline>---\<newline>\<newline>*Log generated at 2024-01-05 03:04:10*\<newline>''"
  using finalize_twice [OF writable_demo, of clock0 clock1]
  by (simp add: writable_demo content_demo strftime_clock0 py_def del: strftime.simps)

subsection \<open>The attributes of the logger\<close>

lemma logger_with_file [simp]: "logger (fst (with_file m body w)) = logger w"
  by (simp add: with_file_def split: prod.splits)

lemma logger_and_then:
  assumes "logger (fst r) = l" and "\<And>w. logger (fst (f w)) = logger w"
  shows "logger (fst (and_then r f)) = l"
  using assms by (cases r) (auto simp: and_then_def split: option.splits)

lemma logger_skip [simp]: "logger (fst (skip w)) = logger w"
  by (simp add: skip_def)

lemma logger_log_section [simp]: "logger (fst (log_section title body w)) = logger w"
  by (simp add: log_section_def)

lemma logger_log_text [simp]: "logger (fst (log_text text w)) = logger w"
  by (simp add: log_text_def)

lemma logger_log_data [simp]: "logger (fst (log_data data title w)) = logger w"
  unfolding log_data_def
  by (rule logger_and_then) (simp_all split: option.splits)

lemma logger_log_result [simp]: "logger (fst (log_result result w)) = logger w"
  unfolding log_result_def Let_def
  by (intro logger_and_then) (simp_all split: option.splits)

lemma logger_perform [simp]: "logger (fst (perform c w)) = logger w"
  by (cases c)
     (simp_all add: log_code_def log_table_def log_list_def finalize_def del: strftime.simps)

lemma logger_run [simp]: "logger (run cs w) = logger w"
  by (induction cs arbitrary: w) simp_all

text \<open>
  C9: the constructor sets the file path from the output directory, the script name and
  the clock, and the file is there when it returns; no logging call changes an
  attribute of the logger, in whatever state it is made, so \<open>get_filepath\<close> returns the
  same path after any sequence of calls.
\<close>

theorem filepath_assigned_once:
  assumes "init sn od t1 t2 fs = Inr w"
  shows "get_filepath w =
           truediv (mk_path od) (sn @ py ''_'' @ strftime t1 ''%Y%m%d_%H%M%S'' @ py ''.md'') \<and>
         script_name (logger w) = sn \<and>
         output_dir (logger w) = mk_path od \<and>
         files (disk w) (get_filepath w) \<noteq> None \<and>
         logger (fst (perform c w')) = logger w' \<and>
         logger (run cs w) = logger w \<and>
         get_filepath (run cs w) = get_filepath w"
  using init_Inr(1,3) [OF assms]
  by (simp add: get_filepath_def del: strftime.simps)

lemma demo_name:
  "py ''demo'' @ py ''_'' @ py ''20240105_030409'' @ py ''.md'' = py ''demo_20240105_030409.md''"
  by (simp add: py_def)

theorem filepath_assigned_once_witness:
  "init (py ''demo'') (py ''./output'') clock0 clock0 fs0 = Inr demo_world \<and>
   get_filepath demo_world = Path False [py ''output'', py ''demo_20240105_030409.md''] \<and>
   get_filepath (run [LogText (py ''a''), LogData PCyc None, Finalize clock1] demo_world) =
     Path False [py ''output'', py ''demo_20240105_030409.md'']"
proof -
  have "get_filepath demo_world = Path False [py ''output'', py ''demo_20240105_030409.md''] \<and>
        get_filepath (run [LogText (py ''a''), LogData PCyc None, Finalize clock1] demo_world) =
          Path False [py ''output'', py ''demo_20240105_030409.md'']"
    using filepath_assigned_once [OF init_demo,
            of "LogText []" demo_world "[LogText (py ''a''), LogData PCyc None, Finalize clock1]"]
    by (simp add: mk_path_output strftime_clock0 demo_name demo_filepath
          del: strftime.simps run.simps)
  with init_demo show ?thesis by blast
qed

subsection \<open>The order of the entries\<close>



subsection \<open>The result summary\<close>












subsection \<open>Creating the transcript\<close>




















subsection \<open>Serialisation\<close>









lemma tuple_keyed_raises: "json_dumps tuple_keyed = Inl TypeError"
  by (simp add: json_dumps_def tuple_keyed_def encode_block_def encode_item_def encode_key_def)

text \<open>
  C2: the dict \<open>{(1, 2): "x"}\<close> makes \<open>json.dumps\<close> raise \<open>TypeError\<close>. The exception
  reaches the caller, and the file has gained the section of the title and the opening
  fence, with no closing fence after it.
\<close>

theorem log_data_opening_fence_only:
  "log_data tuple_keyed (Some (py ''T'')) demo_world =
     (append_text (py ''## T\<newline>\<newline>```json\<newline>'') demo_world, Some TypeError) \<and>
   content (fst (log_data tuple_keyed (Some (py ''T'')) demo_world)) =
     demo_header @ py ''## T\<newline>\<newline>```json\<newline>'' \<and>
   log_data tuple_keyed None demo_world =
     (append_text (py ''```json\<newline>'') demo_world, Some TypeError)"
proof -
  have "data_text tuple_keyed (Some (py ''T'')) = py ''## T\<newline>\<newline>```json\<newline>''"
    by (simp add: data_text_def tuple_keyed_raises section_text_def) (simp add: py_def)
  moreover have "data_text tuple_keyed None = py ''```json\<newline>''"
    by (simp add: data_text_def tuple_keyed_raises)
  ultimately show ?thesis
    by (simp add: log_data_appends [OF writable_demo] tuple_keyed_raises content_demo)
qed




subsection \<open>Reading back a string\<close>


lemma length_hex4 [simp]: "length (hex4 n) = 4"
  by (simp add: hex4_def hex2_def)














subsection \<open>Reading back a number\<close>














subsection \<open>Reading back a list and a dict\<close>




lemma delim_indent [simp]: "delim (newline_indent k @ z)"
  by (simp add: delim_def newline_indent_def)

lemma delim_comma [simp]: "delim (44 # z)"
  by (simp add: delim_def)










subsection \<open>The round trip\<close>















end
